theory Spec2Isabelle
  imports Complex_Main "HOL-Library.Word" "HOL-Library.Log_Nat"
begin

section \<open>The application controller of \<^verbatim>\<open>src/main.cpp\<close>\<close>

text \<open>
  The program is four callbacks (\<^verbatim>\<open>SDL_AppInit\<close>, \<^verbatim>\<open>SDL_AppEvent\<close>,
  \<^verbatim>\<open>SDL_AppIterate\<close>, \<^verbatim>\<open>SDL_AppQuit\<close>) around one heap object, \<^verbatim>\<open>AppContext\<close>.
  Each callback is embedded as a function that takes the object (and whatever the
  library handed to the callback) and returns the callback's result, the object as the
  callback leaves it, and the list of library calls with an outside effect that the
  callback made, in program order.
\<close>

subsection \<open>Data\<close>

text \<open>
  A pointer to a library object (\<^verbatim>\<open>SDL_Window *\<close>, \<^verbatim>\<open>SDL_Renderer *\<close>,
  \<^verbatim>\<open>SDL_Texture *\<close>, \<^verbatim>\<open>SDL_Surface *\<close>, \<^verbatim>\<open>TTF_Font *\<close>): \<open>None\<close> is the null
  pointer, \<open>Some a\<close> the object at address \<open>a\<close>.
\<close>

type_synonym handle = "nat option"

datatype SDL_AppResult = SDL_APP_CONTINUE | SDL_APP_SUCCESS | SDL_APP_FAILURE

text \<open>
  \<^verbatim>\<open>SDL_FRect\<close>. A field holds the value of a \<^verbatim>\<open>float\<close>. The only values the
  program stores are the constant 0 and the results of \<^verbatim>\<open>float(...)\<close> on 64-bit
  integers (\<open>float_of_int\<close> below), and such a result is always a whole number, so
  the fields are integers.
\<close>

record SDL_FRect =
  rect_x :: int
  rect_y :: int
  rect_w :: int
  rect_h :: int

text \<open>\<^verbatim>\<open>struct AppContext\<close>, lines 17-27.\<close>

record AppContext =
  window :: handle
  renderer :: handle
  messageTex :: handle
  imageTex :: handle
  messageDest :: SDL_FRect
  iteration :: int
  app_quit :: SDL_AppResult

text \<open>
  The part of \<^verbatim>\<open>SDL_Event\<close> the program reads: the \<^verbatim>\<open>type\<close> tag and, for keyboard
  events, \<^verbatim>\<open>key.key\<close>. Only the enumerators the program names are told apart.
\<close>

datatype SDL_EventType =
  SDL_EVENT_QUIT | SDL_EVENT_KEY_DOWN | SDL_EVENT_KEY_UP | SDL_EVENT_OTHER nat

datatype SDL_Keycode = SDLK_ESCAPE | SDLK_OTHER nat

record SDL_Event =
  ev_type :: SDL_EventType
  ev_key :: SDL_Keycode

text \<open>The library calls the callbacks make that act on the outside world.\<close>

datatype Effect =
  ShowSimpleMessageBox string handle
| LogError
| Log string "int list"
| CloseFont handle
| DestroySurface handle
| ShowWindow handle
| SetRenderVSync handle int
| CoutTime int
| SetRenderDrawColor handle "8 word" "8 word" "8 word" "8 word"
| RenderClear handle
| RenderTexture handle handle "SDL_FRect option"
| RenderPresent handle
| DestroyTexture handle
| DestroyRenderer handle
| DestroyWindow handle
| DeleteAppContext AppContext
| TTF_Quit
| SDL_Quit

subsection \<open>Single precision\<close>

text \<open>
  \<^verbatim>\<open>float\<close> is IEEE binary32: 24 significant bits, round to nearest, ties to even.
  \<open>rne p d\<close> is the integer nearest to \<open>p / d\<close>, the even one of the two on a tie.
\<close>

definition rne :: "nat \<Rightarrow> nat \<Rightarrow> nat" where
  "rne p d =
     (let q = p div d; r = p mod d
      in if 2 * r < d then q
         else if d < 2 * r then q + 1
         else if even q then q else q + 1)"

text \<open>
  The conversion of an unsigned integer to \<^verbatim>\<open>float\<close>: exact below \<open>2 ^ 24\<close>; a
  number of \<open>24 + k\<close> bits is rounded to a multiple of \<open>2 ^ k\<close>.
\<close>

definition float_of_nat :: "nat \<Rightarrow> nat" where
  "float_of_nat n =
     (if n < 2 ^ 24 then n
      else let k = floorlog 2 n - 24 in rne n (2 ^ k) * 2 ^ k)"

text \<open>\<^verbatim>\<open>float(i)\<close> for a signed integer: the rounding is symmetric in the sign.\<close>

definition float_of_int :: "int \<Rightarrow> int" where
  "float_of_int i =
     (if i < 0 then - int (float_of_nat (nat (- i))) else int (float_of_nat (nat i)))"

text \<open>
  \<^verbatim>\<open>std::round(a / 1000.f)\<close> for a \<^verbatim>\<open>float\<close> \<open>a\<close> that holds a natural number.
  With \<open>b\<close> the number of bits of \<open>a\<close>, the quotient lies in the binade of exponent
  \<open>e\<close> (\<open>2 ^ e \<le> a / 1000 < 2 ^ (e + 1)\<close>) and is rounded to a multiple of
  \<open>2 ^ (e - 23)\<close>. Below \<open>2 ^ 23\<close> that is \<open>n / 2 ^ k\<close> with \<open>k = 23 - e\<close>, which
  \<^verbatim>\<open>std::round\<close> then rounds to the nearest whole number, halves upwards; from
  \<open>2 ^ 23\<close> on the rounded quotient is a whole number already.
\<close>

definition round_div_1000f :: "nat \<Rightarrow> nat" where
  "round_div_1000f a =
     (if a = 0 then 0
      else
        let b = floorlog 2 a;
            e = (if 1000 * 2 ^ b \<le> a * 2 ^ 10 then int b - 10 else int b - 11)
        in if e < 23
           then let k = nat (23 - e); n = rne (a * 2 ^ k) 1000
                in (n + 2 ^ (k - 1)) div 2 ^ k
           else let j = nat (e - 23) in rne a (1000 * 2 ^ j) * 2 ^ j)"

subsection \<open>\<^verbatim>\<open>SDL_AppEvent\<close>, lines 140-161\<close>

definition SDL_AppEvent :: "AppContext \<Rightarrow> SDL_Event \<Rightarrow> SDL_AppResult \<times> AppContext" where
  "SDL_AppEvent app event =
     (let app1 = (if ev_type event = SDL_EVENT_QUIT
                  then app\<lparr>app_quit := SDL_APP_SUCCESS\<rparr> else app);
          app2 = (case ev_type event of
                    SDL_EVENT_KEY_DOWN \<Rightarrow>
                      (if ev_key event = SDLK_ESCAPE
                       then app1\<lparr>app_quit := SDL_APP_SUCCESS\<rparr> else app1)
                  | _ \<Rightarrow> app1)
      in (SDL_APP_CONTINUE, app2))"

text \<open>
  The run loop hands a sequence of events to \<^verbatim>\<open>SDL_AppEvent\<close>, one call each, on the
  same object; the results returned are collected in order.
\<close>

fun event_run :: "AppContext \<Rightarrow> SDL_Event list \<Rightarrow> SDL_AppResult list \<times> AppContext" where
  "event_run app [] = ([], app)"
| "event_run app (e # es) =
     (case SDL_AppEvent app e of (r, app') \<Rightarrow>
        (case event_run app' es of (rs, app'') \<Rightarrow> (r # rs, app'')))"

text \<open>A quit signal, or a key-down of Escape.\<close>

definition is_quit_request :: "SDL_Event \<Rightarrow> bool" where
  "is_quit_request e =
     (ev_type e = SDL_EVENT_QUIT \<or> (ev_type e = SDL_EVENT_KEY_DOWN \<and> ev_key e = SDLK_ESCAPE))"

subsection \<open>\<^verbatim>\<open>SDL_AppInit\<close>, lines 35-138\<close>

text \<open>
  What the library returned to each call of \<^verbatim>\<open>SDL_AppInit\<close>, one field per call site
  in program order (the two calls of \<^verbatim>\<open>SDL_CreateTextureFromSurface\<close> have a field
  each). A null pointer or \<open>False\<close> is the library's failure report for that call.
  The two property queries are functions of their arguments: the properties id of a
  texture (0 when it has none), and the number stored under a name in a set of
  properties, given the default to return when there is none.
\<close>

record InitEnv =
  ret_SDL_Init :: bool
  ret_TTF_Init :: bool
  ret_CreateWindow :: handle
  ret_CreateRenderer :: handle
  ret_GetBasePath :: "string option"
  ret_OpenFont :: handle
  ret_RenderText_Solid :: handle
  ret_CreateTexture_message :: handle
  ret_IMG_Load :: handle
  ret_CreateTexture_image :: handle
  ret_GetTextureProperties :: "handle \<Rightarrow> nat"
  ret_GetNumberProperty :: "nat \<Rightarrow> string \<Rightarrow> int \<Rightarrow> int"
  ret_GetWindowSize :: "int \<times> int"
  ret_GetWindowSizeInPixels :: "int \<times> int"

text \<open>The two property names of the library's \<^verbatim>\<open>SDL_render.h\<close> that line 107-108 use.\<close>

definition SDL_PROP_TEXTURE_WIDTH_NUMBER :: string where
  "SDL_PROP_TEXTURE_WIDTH_NUMBER = ''SDL.texture.width''"

definition SDL_PROP_TEXTURE_HEIGHT_NUMBER :: string where
  "SDL_PROP_TEXTURE_HEIGHT_NUMBER = ''SDL.texture.height''"

text \<open>
  The width and the height the library reports for a texture, queried as lines 103 to
  108 do: the texture's properties, then the number under the name, with default 0.
\<close>

definition queried_width :: "InitEnv \<Rightarrow> handle \<Rightarrow> int" where
  "queried_width env tex =
     ret_GetNumberProperty env (ret_GetTextureProperties env tex)
       SDL_PROP_TEXTURE_WIDTH_NUMBER 0"

definition queried_height :: "InitEnv \<Rightarrow> handle \<Rightarrow> int" where
  "queried_height env tex =
     ret_GetNumberProperty env (ret_GetTextureProperties env tex)
       SDL_PROP_TEXTURE_HEIGHT_NUMBER 0"

text \<open>\<^verbatim>\<open>SDL_Fail\<close>, lines 29-33: log the library's error, return failure.\<close>

definition SDL_Fail :: "SDL_AppResult \<times> Effect list" where
  "SDL_Fail = (SDL_APP_FAILURE, [LogError])"

text \<open>
  The first argument is the content of the slot \<^verbatim>\<open>*appstate\<close> on entry; the second
  component of the result is its content on return. The slot is written in one place
  only, line 125. The branch compiled when \<^verbatim>\<open>__ANDROID__\<close> is not set is the one
  embedded.
\<close>

definition SDL_AppInit ::
  "AppContext option \<Rightarrow> InitEnv \<Rightarrow> SDL_AppResult \<times> AppContext option \<times> Effect list" where
  "SDL_AppInit appstate env =
     (if \<not> ret_SDL_Init env then
        (fst SDL_Fail, appstate,
         ShowSimpleMessageBox ''Could not initialize video and audio'' None # snd SDL_Fail)
      else if \<not> ret_TTF_Init env then
        (fst SDL_Fail, appstate, snd SDL_Fail)
      else
        let window = ret_CreateWindow env in
        if window = None then
          (fst SDL_Fail, appstate,
           ShowSimpleMessageBox ''The window was not initialized!'' window # snd SDL_Fail)
        else
          let renderer = ret_CreateRenderer env in
          if renderer = None then
            (fst SDL_Fail, appstate,
             ShowSimpleMessageBox ''The renderer was not initialized!'' window # snd SDL_Fail)
          else if ret_GetBasePath env = None then
            (fst SDL_Fail, appstate, snd SDL_Fail)
          else
            let font = ret_OpenFont env in
            if font = None then
              (fst SDL_Fail, appstate, snd SDL_Fail)
            else
              let surfaceMessage = ret_RenderText_Solid env;
                  messageTex = ret_CreateTexture_message env;
                  svg_surface = ret_IMG_Load env;
                  tex = ret_CreateTexture_image env;
                  messageTexProps = ret_GetTextureProperties env messageTex;
                  text_rect =
                    \<lparr>rect_x = 0, rect_y = 0,
                     rect_w = float_of_int
                       (ret_GetNumberProperty env messageTexProps
                          SDL_PROP_TEXTURE_WIDTH_NUMBER 0),
                     rect_h = float_of_int
                       (ret_GetNumberProperty env messageTexProps
                          SDL_PROP_TEXTURE_HEIGHT_NUMBER 0)\<rparr>;
                  (width, height) = ret_GetWindowSize env;
                  (bbwidth, bbheight) = ret_GetWindowSizeInPixels env
              in (SDL_APP_CONTINUE,
                  Some \<lparr>window = window, renderer = renderer, messageTex = messageTex,
                        imageTex = tex, messageDest = text_rect, iteration = 0,
                        app_quit = SDL_APP_CONTINUE\<rparr>,
                  [CloseFont font, DestroySurface surfaceMessage, DestroySurface svg_surface,
                   ShowWindow window,
                   Log ''Window size: %ix%i'' [width, height],
                   Log ''Backbuffer size: %ix%i'' [bbwidth, bbheight]]
                  @ (if width \<noteq> bbwidth then [Log ''This is a highdpi environment.'' []] else [])
                  @ [SetRenderVSync renderer (- 1),
                     Log ''Application started successfully!'' []]))"

subsection \<open>\<^verbatim>\<open>SDL_AppIterate\<close>, lines 163-190\<close>

text \<open>
  Lines 168-170: the \<^verbatim>\<open>Uint64\<close> tick count (milliseconds) is converted to
  \<^verbatim>\<open>float\<close>, divided by \<^verbatim>\<open>1000.f\<close> in single precision, rounded by
  \<^verbatim>\<open>std::round\<close> and cast to \<^verbatim>\<open>int\<close>. The cast is the identity on the whole
  number it is given as long as that is below \<open>2 ^ 31\<close>, which it is for every tick
  count up to some 68 years; beyond that the cast is undefined in C++ and the value
  here means nothing.
\<close>

definition seconds_of :: "nat \<Rightarrow> int" where
  "seconds_of ticks = int (round_div_1000f (float_of_nat ticks))"

text \<open>
  The second argument is what \<^verbatim>\<open>SDL_GetTicks\<close> returns to this call. The increment
  of line 175 runs only when \<open>iteration < seconds\<close>, so it cannot overflow.
\<close>

definition SDL_AppIterate ::
  "AppContext \<Rightarrow> nat \<Rightarrow> SDL_AppResult \<times> AppContext \<times> Effect list" where
  "SDL_AppIterate app ticks =
     (let seconds = seconds_of ticks;
          (app1, out) =
             (if seconds > iteration app
              then (app\<lparr>iteration := iteration app + 1\<rparr>, [CoutTime seconds])
              else (app, []))
      in (app_quit app1, app1,
          out @
          [SetRenderDrawColor (renderer app1) 255 255 255 255,
           RenderClear (renderer app1),
           RenderTexture (renderer app1) (imageTex app1) None,
           RenderTexture (renderer app1) (messageTex app1) (Some (messageDest app1)),
           RenderPresent (renderer app1)]))"

text \<open>The three components of what a call of \<^verbatim>\<open>SDL_AppIterate\<close> yields.\<close>

definition iterate_result :: "AppContext \<Rightarrow> nat \<Rightarrow> SDL_AppResult" where
  "iterate_result app ticks = fst (SDL_AppIterate app ticks)"

definition iterate_state :: "AppContext \<Rightarrow> nat \<Rightarrow> AppContext" where
  "iterate_state app ticks = fst (snd (SDL_AppIterate app ticks))"

definition iterate_trace :: "AppContext \<Rightarrow> nat \<Rightarrow> Effect list" where
  "iterate_trace app ticks = snd (snd (SDL_AppIterate app ticks))"

text \<open>A sequence of calls of \<^verbatim>\<open>SDL_AppIterate\<close>, one per tick count read.\<close>

fun iterate_run :: "AppContext \<Rightarrow> nat list \<Rightarrow> AppContext \<times> Effect list" where
  "iterate_run app [] = (app, [])"
| "iterate_run app (t # ts) =
     (case SDL_AppIterate app t of (r, app', tr) \<Rightarrow>
        (case iterate_run app' ts of (app'', tr') \<Rightarrow> (app'', tr @ tr')))"

text \<open>A frame at every millisecond tick from 0 to \<open>n - 1\<close>.\<close>

definition every_tick :: "nat \<Rightarrow> nat list" where
  "every_tick n = [0..<n]"

text \<open>The numbers of the \<^verbatim>\<open>time:\<close> lines written to standard output, in order.\<close>

fun time_lines :: "Effect list \<Rightarrow> int list" where
  "time_lines [] = []"
| "time_lines (CoutTime n # tr) = n # time_lines tr"
| "time_lines (_ # tr) = time_lines tr"


text \<open>Any interleaving of the two callbacks that run between start-up and shutdown.\<close>

datatype Callback = Event SDL_Event | Iterate nat

fun callback_run :: "AppContext \<Rightarrow> Callback list \<Rightarrow> AppContext" where
  "callback_run app [] = app"
| "callback_run app (Event e # cs) = callback_run (snd (SDL_AppEvent app e)) cs"
| "callback_run app (Iterate t # cs) = callback_run (fst (snd (SDL_AppIterate app t))) cs"

text \<open>An event other than a quit signal or an Escape key-down, or a frame.\<close>

fun no_quit_request :: "Callback \<Rightarrow> bool" where
  "no_quit_request (Event e) = (\<not> is_quit_request e)"
| "no_quit_request (Iterate t) = True"

subsection \<open>The compositor\<close>






subsection \<open>\<^verbatim>\<open>SDL_AppQuit\<close>, lines 192-206\<close>

definition SDL_AppQuit :: "AppContext option \<Rightarrow> SDL_AppResult \<Rightarrow> Effect list" where
  "SDL_AppQuit appstate result =
     (case appstate of
        Some app \<Rightarrow>
          [DestroyRenderer (renderer app), DestroyWindow (window app), DeleteAppContext app]
      | None \<Rightarrow> [])
     @ [TTF_Quit, Log ''Application quit successfully!'' [], SDL_Quit]"

text \<open>The objects a list of calls frees, as they are when freed.\<close>

fun freed_objects :: "Effect list \<Rightarrow> AppContext list" where
  "freed_objects [] = []"
| "freed_objects (DeleteAppContext app # tr) = app # freed_objects tr"
| "freed_objects (_ # tr) = freed_objects tr"

subsection \<open>The library's resources at teardown\<close>

text \<open>
  Modelled from the spec: the library's bookkeeping of what is alive is not under src/.
  Section 3 has the state own a window, a renderer that depends on the window, and two
  textures, each to be released exactly once at teardown, the renderer and the window
  before the library is shut down. The program uploads both textures to the renderer
  (lines 91 and 99), and the library documents of \<^verbatim>\<open>SDL_DestroyRenderer\<close> that it
  destroys the rendering context and frees all textures associated with it; the program
  has no other release of a texture. A library state lists the windows and renderers
  alive and each texture alive with the renderer it was created on.
\<close>

datatype Resource = Window nat | Renderer nat | Texture nat

datatype Teardown = Released Resource | TextSubsystemDown | LibraryDown

record Library =
  windows :: "nat list"
  renderers :: "nat list"
  textures :: "(nat \<times> nat) list"

text \<open>
  Modelled from the spec: what one call releases or shuts down, and the library state
  after it. Every release a call asks for is recorded, also of something no longer
  alive, so that a second release of the same thing shows.
\<close>

fun teardown_step :: "Library \<Rightarrow> Effect \<Rightarrow> Teardown list \<times> Library" where
  "teardown_step L (DestroyTexture (Some t)) =
     ([Released (Texture t)],
      L\<lparr>textures := filter (\<lambda>(t', r). t' \<noteq> t) (textures L)\<rparr>)"
| "teardown_step L (DestroyRenderer (Some r)) =
     (map (\<lambda>(t, r'). Released (Texture t)) (filter (\<lambda>(t, r'). r' = r) (textures L))
      @ [Released (Renderer r)],
      L\<lparr>renderers := removeAll r (renderers L),
        textures := filter (\<lambda>(t, r'). r' \<noteq> r) (textures L)\<rparr>)"
| "teardown_step L (DestroyWindow (Some w)) =
     ([Released (Window w)], L\<lparr>windows := removeAll w (windows L)\<rparr>)"
| "teardown_step L TTF_Quit = ([TextSubsystemDown], L)"
| "teardown_step L SDL_Quit = ([LibraryDown], L)"
| "teardown_step L _ = ([], L)"

text \<open>The same over a list of calls, in order.\<close>

fun teardown :: "Library \<Rightarrow> Effect list \<Rightarrow> Teardown list \<times> Library" where
  "teardown L [] = ([], L)"
| "teardown L (e # es) =
     (case teardown_step L e of (out, L') \<Rightarrow>
        (case teardown L' es of (out', L'') \<Rightarrow> (out @ out', L'')))"

text \<open>
  What the library holds alive for an object as start-up builds it: the window of line
  51, the renderer of line 60, and the textures of lines 91 and 99, both created on
  that renderer. A null handle stands for nothing.
\<close>

definition library_of :: "AppContext \<Rightarrow> Library" where
  "library_of app =
     \<lparr>windows = (case window app of Some w \<Rightarrow> [w] | None \<Rightarrow> []),
      renderers = (case renderer app of Some r \<Rightarrow> [r] | None \<Rightarrow> []),
      textures =
        (case renderer app of
           None \<Rightarrow> []
         | Some r \<Rightarrow>
             (case messageTex app of Some t \<Rightarrow> [(t, r)] | None \<Rightarrow> []) @
             (case imageTex app of Some t \<Rightarrow> [(t, r)] | None \<Rightarrow> []))\<rparr>"

subsection \<open>Sample values\<close>

text \<open>A start-up in which every call succeeds.\<close>

definition env_ok :: InitEnv where
  "env_ok = \<lparr>ret_SDL_Init = True, ret_TTF_Init = True,
             ret_CreateWindow = Some 16, ret_CreateRenderer = Some 32,
             ret_GetBasePath = Some ''/opt/tiger/'', ret_OpenFont = Some 80,
             ret_RenderText_Solid = Some 96, ret_CreateTexture_message = Some 48,
             ret_IMG_Load = Some 112, ret_CreateTexture_image = Some 64,
             ret_GetTextureProperties = (\<lambda>tex. if tex = Some 48 then 7 else 0),
             ret_GetNumberProperty =
               (\<lambda>props name dflt.
                  if props = 7 \<and> name = SDL_PROP_TEXTURE_WIDTH_NUMBER then 160
                  else if props = 7 \<and> name = SDL_PROP_TEXTURE_HEIGHT_NUMBER then 28
                  else dflt),
             ret_GetWindowSize = (600, 600), ret_GetWindowSizeInPixels = (600, 600)\<rparr>"

text \<open>
  The same start-up with \<^verbatim>\<open>gs_tiger.svg\<close> missing: \<^verbatim>\<open>IMG_Load\<close> returns null, and
  so does the texture upload from the null surface.
\<close>

definition env_no_image :: InitEnv where
  "env_no_image = env_ok\<lparr>ret_IMG_Load := None, ret_CreateTexture_image := None\<rparr>"

definition app0 :: AppContext where
  "app0 = \<lparr>window = Some 16, renderer = Some 32, messageTex = Some 48, imageTex = Some 64,
           messageDest = \<lparr>rect_x = 0, rect_y = 0, rect_w = 160, rect_h = 28\<rparr>,
           iteration = 0, app_quit = SDL_APP_CONTINUE\<rparr>"

definition ev_quit :: SDL_Event where
  "ev_quit = \<lparr>ev_type = SDL_EVENT_QUIT, ev_key = SDLK_OTHER 0\<rparr>"

definition ev_escape_down :: SDL_Event where
  "ev_escape_down = \<lparr>ev_type = SDL_EVENT_KEY_DOWN, ev_key = SDLK_ESCAPE\<rparr>"

definition ev_escape_up :: SDL_Event where
  "ev_escape_up = \<lparr>ev_type = SDL_EVENT_KEY_UP, ev_key = SDLK_ESCAPE\<rparr>"

definition ev_a_down :: SDL_Event where
  "ev_a_down = \<lparr>ev_type = SDL_EVENT_KEY_DOWN, ev_key = SDLK_OTHER 97\<rparr>"

definition ev_mouse_motion :: SDL_Event where
  "ev_mouse_motion = \<lparr>ev_type = SDL_EVENT_OTHER 1024, ev_key = SDLK_ESCAPE\<rparr>"

section \<open>Auxiliary facts\<close>

subsection \<open>Events\<close>

lemma SDL_AppEvent_result: "fst (SDL_AppEvent app e) = SDL_APP_CONTINUE"
  by (simp add: SDL_AppEvent_def Let_def)

lemma SDL_AppEvent_ignored:
  "\<not> is_quit_request e \<Longrightarrow> snd (SDL_AppEvent app e) = app"
  by (cases "ev_type e") (auto simp: SDL_AppEvent_def is_quit_request_def)

lemma SDL_AppEvent_quit:
  "is_quit_request e \<Longrightarrow> snd (SDL_AppEvent app e) = app\<lparr>app_quit := SDL_APP_SUCCESS\<rparr>"
  by (cases "ev_type e") (auto simp: SDL_AppEvent_def is_quit_request_def)

lemma SDL_AppEvent_cases:
  "snd (SDL_AppEvent app e) = app \<or> snd (SDL_AppEvent app e) = app\<lparr>app_quit := SDL_APP_SUCCESS\<rparr>"
  using SDL_AppEvent_ignored SDL_AppEvent_quit by blast

lemma SDL_AppEvent_keeps_success:
  "app_quit app = SDL_APP_SUCCESS \<Longrightarrow> app_quit (snd (SDL_AppEvent app e)) = SDL_APP_SUCCESS"
  using SDL_AppEvent_cases [of app e] by auto

lemma event_run_Cons_fst:
  "fst (event_run app (e # es)) =
     fst (SDL_AppEvent app e) # fst (event_run (snd (SDL_AppEvent app e)) es)"
  by (simp add: case_prod_beta)

lemma event_run_Cons_snd:
  "snd (event_run app (e # es)) = snd (event_run (snd (SDL_AppEvent app e)) es)"
  by (simp add: case_prod_beta)

lemma event_run_keeps_success:
  "app_quit app = SDL_APP_SUCCESS \<Longrightarrow> app_quit (snd (event_run app es)) = SDL_APP_SUCCESS"
proof (induction es arbitrary: app)
  case Nil
  then show ?case by simp
next
  case (Cons e es)
  from Cons.prems have "app_quit (snd (SDL_AppEvent app e)) = SDL_APP_SUCCESS"
    by (rule SDL_AppEvent_keeps_success)
  then have "app_quit (snd (event_run (snd (SDL_AppEvent app e)) es)) = SDL_APP_SUCCESS"
    by (rule Cons.IH)
  then show ?case by (simp only: event_run_Cons_snd)
qed

subsection \<open>One frame\<close>

lemma SDL_AppIterate_unfold:
  "SDL_AppIterate app t =
     (if iteration app < seconds_of t
      then (app_quit app, app\<lparr>iteration := iteration app + 1\<rparr>,
            [CoutTime (seconds_of t),
             SetRenderDrawColor (renderer app) 255 255 255 255,
             RenderClear (renderer app),
             RenderTexture (renderer app) (imageTex app) None,
             RenderTexture (renderer app) (messageTex app) (Some (messageDest app)),
             RenderPresent (renderer app)])
      else (app_quit app, app,
            [SetRenderDrawColor (renderer app) 255 255 255 255,
             RenderClear (renderer app),
             RenderTexture (renderer app) (imageTex app) None,
             RenderTexture (renderer app) (messageTex app) (Some (messageDest app)),
             RenderPresent (renderer app)]))"
  by (simp add: SDL_AppIterate_def Let_def)

lemma iterate_result_eq: "iterate_result app t = app_quit app"
  by (simp add: iterate_result_def SDL_AppIterate_unfold)

lemma iterate_state_eq:
  "iterate_state app t =
     (if iteration app < seconds_of t then app\<lparr>iteration := iteration app + 1\<rparr> else app)"
  by (simp add: iterate_state_def SDL_AppIterate_unfold)

lemma iterate_trace_eq:
  "iterate_trace app t =
     (if iteration app < seconds_of t then [CoutTime (seconds_of t)] else []) @
     [SetRenderDrawColor (renderer app) 255 255 255 255,
      RenderClear (renderer app),
      RenderTexture (renderer app) (imageTex app) None,
      RenderTexture (renderer app) (messageTex app) (Some (messageDest app)),
      RenderPresent (renderer app)]"
  by (simp add: iterate_trace_def SDL_AppIterate_unfold)

lemma SDL_AppIterate_parts:
  "SDL_AppIterate app t = (iterate_result app t, iterate_state app t, iterate_trace app t)"
  by (simp add: iterate_result_def iterate_state_def iterate_trace_def)

lemma iterate_state_app_quit: "app_quit (iterate_state app t) = app_quit app"
  by (simp add: iterate_state_eq)

lemma iterate_state_messageDest: "messageDest (iterate_state app t) = messageDest app"
  by (simp add: iterate_state_eq)

lemma iterate_state_iteration_ge: "iteration app \<le> iteration (iterate_state app t)"
  by (simp add: iterate_state_eq)

lemma iterate_run_Cons_fst:
  "fst (iterate_run app (t # ts)) = fst (iterate_run (iterate_state app t) ts)"
  by (simp add: SDL_AppIterate_parts case_prod_beta)

lemma iterate_run_Cons_snd:
  "snd (iterate_run app (t # ts)) =
     iterate_trace app t @ snd (iterate_run (iterate_state app t) ts)"
  by (simp add: SDL_AppIterate_parts case_prod_beta)

lemma iterate_run_iteration_ge: "iteration app \<le> iteration (fst (iterate_run app ts))"
proof (induction ts arbitrary: app)
  case Nil
  show ?case by simp
next
  case (Cons t ts)
  have "iteration app \<le> iteration (iterate_state app t)"
    by (rule iterate_state_iteration_ge)
  also have "\<dots> \<le> iteration (fst (iterate_run (iterate_state app t) ts))"
    by (rule Cons.IH)
  finally show ?case by (simp only: iterate_run_Cons_fst)
qed

lemma callback_run_app_quit:
  "\<forall>c \<in> set cs. no_quit_request c \<Longrightarrow> app_quit (callback_run app cs) = app_quit app"
proof (induction app cs rule: callback_run.induct)
  case (1 app)
  show ?case by simp
next
  case (2 app e cs)
  then have "\<not> is_quit_request e" by simp
  then have "snd (SDL_AppEvent app e) = app" by (rule SDL_AppEvent_ignored)
  with 2 show ?case by simp
next
  case (3 app t cs)
  then show ?case by (simp add: iterate_state_app_quit flip: iterate_state_def)
qed

lemma callback_run_messageDest: "messageDest (callback_run app cs) = messageDest app"
proof (induction app cs rule: callback_run.induct)
  case (1 app)
  show ?case by simp
next
  case (2 app e cs)
  have "messageDest (snd (SDL_AppEvent app e)) = messageDest app"
    using SDL_AppEvent_cases [of app e] by auto
  with 2 show ?case by simp
next
  case (3 app t cs)
  then show ?case by (simp add: iterate_state_messageDest flip: iterate_state_def)
qed

subsection \<open>Start-up\<close>

lemma SDL_AppInit_failure:
  assumes "\<not> ret_SDL_Init env \<or> \<not> ret_TTF_Init env \<or> ret_CreateWindow env = None \<or>
           ret_CreateRenderer env = None \<or> ret_GetBasePath env = None \<or>
           ret_OpenFont env = None"
  shows "fst (SDL_AppInit slot env) = SDL_APP_FAILURE \<and> fst (snd (SDL_AppInit slot env)) = slot"
  using assms by (auto simp: SDL_AppInit_def SDL_Fail_def Let_def)

lemma SDL_AppInit_success:
  assumes "ret_SDL_Init env" "ret_TTF_Init env" "ret_CreateWindow env \<noteq> None"
    "ret_CreateRenderer env \<noteq> None" "ret_GetBasePath env \<noteq> None" "ret_OpenFont env \<noteq> None"
  shows "fst (SDL_AppInit slot env) = SDL_APP_CONTINUE \<and>
         fst (snd (SDL_AppInit slot env)) =
           Some \<lparr>window = ret_CreateWindow env, renderer = ret_CreateRenderer env,
                 messageTex = ret_CreateTexture_message env,
                 imageTex = ret_CreateTexture_image env,
                 messageDest =
                   \<lparr>rect_x = 0, rect_y = 0,
                    rect_w = float_of_int (queried_width env (ret_CreateTexture_message env)),
                    rect_h = float_of_int (queried_height env (ret_CreateTexture_message env))\<rparr>,
                 iteration = 0, app_quit = SDL_APP_CONTINUE\<rparr>"
  using assms
  by (auto simp: SDL_AppInit_def Let_def case_prod_beta queried_width_def queried_height_def)

lemma SDL_AppInit_continue_iff:
  "fst (SDL_AppInit slot env) = SDL_APP_CONTINUE \<longleftrightarrow>
     ret_SDL_Init env \<and> ret_TTF_Init env \<and> ret_CreateWindow env \<noteq> None \<and>
     ret_CreateRenderer env \<noteq> None \<and> ret_GetBasePath env \<noteq> None \<and> ret_OpenFont env \<noteq> None"
proof
  assume c: "fst (SDL_AppInit slot env) = SDL_APP_CONTINUE"
  show "ret_SDL_Init env \<and> ret_TTF_Init env \<and> ret_CreateWindow env \<noteq> None \<and>
        ret_CreateRenderer env \<noteq> None \<and> ret_GetBasePath env \<noteq> None \<and>
        ret_OpenFont env \<noteq> None"
  proof (rule ccontr)
    assume "\<not> ?thesis"
    then have "\<not> ret_SDL_Init env \<or> \<not> ret_TTF_Init env \<or> ret_CreateWindow env = None \<or>
               ret_CreateRenderer env = None \<or> ret_GetBasePath env = None \<or>
               ret_OpenFont env = None"
      by blast
    then have "fst (SDL_AppInit slot env) = SDL_APP_FAILURE"
      by (rule SDL_AppInit_failure [THEN conjunct1])
    with c show False by simp
  qed
next
  assume "ret_SDL_Init env \<and> ret_TTF_Init env \<and> ret_CreateWindow env \<noteq> None \<and>
          ret_CreateRenderer env \<noteq> None \<and> ret_GetBasePath env \<noteq> None \<and>
          ret_OpenFont env \<noteq> None"
  then show "fst (SDL_AppInit slot env) = SDL_APP_CONTINUE"
    by (simp add: SDL_AppInit_success)
qed

lemma SDL_AppInit_unchecked_steps:
  "fst (SDL_AppInit slot
          (env\<lparr>ret_RenderText_Solid := a, ret_CreateTexture_message := b,
               ret_IMG_Load := c, ret_CreateTexture_image := d\<rparr>)) =
   fst (SDL_AppInit slot env)"
  by (simp add: SDL_AppInit_def Let_def case_prod_beta)

lemma SDL_AppInit_env_ok:
  "SDL_AppInit None env_ok =
     (SDL_APP_CONTINUE, Some app0,
      [CloseFont (Some 80), DestroySurface (Some 96), DestroySurface (Some 112),
       ShowWindow (Some 16),
       Log ''Window size: %ix%i'' [600, 600],
       Log ''Backbuffer size: %ix%i'' [600, 600],
       SetRenderVSync (Some 32) (- 1),
       Log ''Application started successfully!'' []])"
  by (simp add: SDL_AppInit_def env_ok_def app0_def Let_def float_of_int_def float_of_nat_def
      SDL_PROP_TEXTURE_WIDTH_NUMBER_def SDL_PROP_TEXTURE_HEIGHT_NUMBER_def)

subsection \<open>The once-a-second line\<close>

lemma rne_lower: "0 < d \<Longrightarrow> d * l \<le> p \<Longrightarrow> l \<le> rne p d"
proof -
  assume d: "0 < d" and l: "d * l \<le> p"
  then have "l \<le> p div d"
    by (metis div_le_mono nonzero_mult_div_cancel_left less_numeral_extra(3))
  moreover have "p div d \<le> rne p d" by (simp add: rne_def Let_def)
  ultimately show ?thesis by simp
qed

lemma rne_upper: "0 < d \<Longrightarrow> 2 * d * rne p d \<le> 2 * p + d"
proof -
  assume d: "0 < d"
  have p: "p = d * (p div d) + p mod d" by simp
  have m: "p mod d < d" using d by simp
  show ?thesis
  proof (cases "2 * (p mod d) < d")
    case True
    then have "rne p d = p div d" by (simp add: rne_def Let_def)
    then have "2 * d * rne p d = 2 * (d * (p div d))" by simp
    also have "\<dots> \<le> 2 * p" by simp
    finally show ?thesis by simp
  next
    case False
    then have "rne p d \<le> p div d + 1" by (simp add: rne_def Let_def)
    then have "2 * d * rne p d \<le> 2 * d * (p div d + 1)" by (rule mult_le_mono2)
    also have "\<dots> = 2 * (d * (p div d)) + 2 * d" by (simp add: algebra_simps)
    also have "\<dots> \<le> 2 * (d * (p div d)) + 2 * (p mod d) + d" using False by simp
    also have "\<dots> = 2 * p + d" using mult_div_mod_eq [of d p] by linarith
    finally show ?thesis .
  qed
qed

lemma round_div_1000f_exact:
  assumes "a < 2 ^ 24"
  shows "round_div_1000f a = (a + 500) div 1000"
proof (cases "a = 0")
  case True
  then show ?thesis by (simp add: round_div_1000f_def)
next
  case False
  define b where "b = floorlog 2 a"
  define e where "e = (if 1000 * 2 ^ b \<le> a * 2 ^ 10 then int b - 10 else int b - 11)"
  define k where "k = nat (23 - e)"
  define n where "n = rne (a * 2 ^ k) 1000"
  define K where "K = (2::nat) ^ (k - 1)"
  define m where "m = (a + 500) div 1000"
  have "b \<le> 24" using assms by (simp add: b_def floorlog_le_iff)
  then have e14: "e \<le> 14" by (simp add: e_def)
  then have e23: "e < 23" by simp
  from e14 have k9: "9 \<le> k" by (simp add: k_def)
  then have "(2::nat) ^ 8 \<le> 2 ^ (k - 1)" by (intro power_increasing) simp_all
  then have K: "256 \<le> K" by (simp add: K_def)
  from k9 have "k = Suc (k - 1)" by simp
  then have "(2::nat) ^ k = 2 * 2 ^ (k - 1)" by (metis power_Suc)
  then have pk: "(2::nat) ^ k = 2 * K" by (simp add: K_def)
  have "round_div_1000f a = (rne (a * 2 ^ k) 1000 + 2 ^ (k - 1)) div 2 ^ k"
    using False e23 unfolding round_div_1000f_def Let_def k_def e_def b_def
    by simp
  then have res: "round_div_1000f a = (n + K) div (2 * K)"
    by (simp only: n_def K_def pk)
  have lo: "1000 * m \<le> a + 500" by (simp add: m_def)
  have hi: "a + 500 < 1000 * (m + 1)"
  proof -
    define r where "r = (a + 500) mod 1000"
    have "r < 1000" by (simp add: r_def)
    moreover have "1000 * m + r = a + 500"
      unfolding m_def r_def by (rule mult_div_mod_eq)
    ultimately have "a + 500 < 1000 * m + 1000" by simp
    then show ?thesis by simp
  qed
  have nlo: "2 * K * m \<le> n + K"
  proof -
    have "1000 * (2 * K * m - K) \<le> a * (2 * K)"
    proof -
      have "1000 * (2 * K * m - K) = 2 * K * (1000 * m) - 1000 * K"
        by (simp add: algebra_simps)
      also have "\<dots> \<le> 2 * K * (a + 500) - 1000 * K"
        using lo by (intro diff_le_mono mult_le_mono2)
      also have "\<dots> = a * (2 * K)" by (simp add: algebra_simps)
      finally show ?thesis .
    qed
    then have "2 * K * m - K \<le> n"
      unfolding n_def pk by (intro rne_lower) simp_all
    then show ?thesis by simp
  qed
  have nhi: "n + K < 2 * K * (m + 1)"
  proof -
    have "2 * 1000 * n \<le> 2 * (a * (2 * K)) + 1000"
      unfolding n_def pk by (rule rne_upper) simp
    moreover from hi have "a + 1 \<le> 1000 * m + 500" by simp
    then have "(a + 1) * K \<le> (1000 * m + 500) * K"
      by (rule mult_le_mono1)
    then have "a * K + K \<le> 1000 * m * K + 500 * K"
      by (simp add: algebra_simps)
    moreover note K
    ultimately have "2000 * (n + K) < 2000 * (2 * K * (m + 1))"
      by (simp add: algebra_simps)
    then show ?thesis by simp
  qed
  have "(n + K) div (2 * K) = m"
  proof (rule div_nat_eqI)
    show "2 * K * m \<le> n + K" by (rule nlo)
    show "n + K < 2 * K * Suc m" using nhi by simp
  qed
  with res show ?thesis by (simp add: m_def)
qed

lemma seconds_of_div: "t < 2 ^ 24 \<Longrightarrow> seconds_of t = int ((t + 500) div 1000)"
  by (simp add: seconds_of_def float_of_nat_def round_div_1000f_exact)

lemma seconds_of_beyond: "seconds_of 16777499 = 16778"
  by (simp add: seconds_of_def float_of_nat_def round_div_1000f_def rne_def Let_def
      compute_floorlog)

lemma float_of_int_exact: "\<bar>i\<bar> \<le> 2 ^ 24 \<Longrightarrow> float_of_int i = i"
proof -
  assume i: "\<bar>i\<bar> \<le> 2 ^ 24"
  have top: "float_of_nat (2 ^ 24) = 2 ^ 24"
    by (simp add: float_of_nat_def rne_def Let_def compute_floorlog)
  have "float_of_nat n = n" if "n \<le> 2 ^ 24" for n
  proof (cases "n = 2 ^ 24")
    case True
    then show ?thesis by (simp only: top)
  next
    case False
    with that have "n < 2 ^ 24" by simp
    then show ?thesis by (simp add: float_of_nat_def)
  qed
  moreover from i have "nat i \<le> 2 ^ 24" "nat (- i) \<le> 2 ^ 24" by simp_all
  ultimately show ?thesis by (simp add: float_of_int_def)
qed

lemma float_of_int_beyond: "float_of_int 16777217 = 16777216"
  by (simp add: float_of_int_def float_of_nat_def rne_def Let_def compute_floorlog)

lemma seconds_of_mono:
  assumes "a \<le> b" and "b < 2 ^ 24"
  shows "seconds_of a \<le> seconds_of b"
proof -
  from assms have a: "a < 2 ^ 24" by simp
  from assms(1) show ?thesis
    by (simp add: seconds_of_div [OF a] seconds_of_div [OF assms(2)] div_le_mono)
qed

lemma seconds_of_gap:
  assumes "b \<le> a + 1000" and "a < 2 ^ 24" and "b < 2 ^ 24"
  shows "seconds_of b \<le> seconds_of a + 1"
proof -
  from assms(1) have "(b + 500) div 1000 \<le> (a + 500 + 1000) div 1000"
    by (intro div_le_mono) simp
  then show ?thesis
    by (simp add: seconds_of_div [OF assms(2)] seconds_of_div [OF assms(3)])
qed

lemma time_lines_append: "time_lines (xs @ ys) = time_lines xs @ time_lines ys"
  by (induction xs rule: time_lines.induct) simp_all

lemma time_lines_iterate_trace:
  "time_lines (iterate_trace app t) =
     (if iteration app < seconds_of t then [seconds_of t] else [])"
  by (simp add: iterate_trace_eq)

lemma upto_join:
  assumes "i \<le> j + 1" and "j \<le> k"
  shows "[i..j] @ [j + 1..k] = [i..k]"
proof (cases "i \<le> j")
  case True
  with assms(2) show ?thesis by (simp add: upto_split2 [of i j k])
next
  case False
  with assms(1) have "i = j + 1" by simp
  then show ?thesis by simp
qed

lemma iterate_catches_up:
  assumes "iteration app \<le> seconds_of t" and "seconds_of t \<le> iteration app + 1"
  shows "iteration (iterate_state app t) = seconds_of t"
    and "time_lines (iterate_trace app t) = [iteration app + 1..seconds_of t]"
proof -
  show "iteration (iterate_state app t) = seconds_of t"
    using assms by (simp add: iterate_state_eq)
  show "time_lines (iterate_trace app t) = [iteration app + 1..seconds_of t]"
  proof (cases "iteration app < seconds_of t")
    case True
    with assms(2) have "seconds_of t = iteration app + 1" by simp
    with True show ?thesis by (simp add: time_lines_iterate_trace)
  next
    case False
    then show ?thesis by (simp add: time_lines_iterate_trace)
  qed
qed

lemma iterate_run_lines:
  assumes "successively (\<lambda>a b. a \<le> b \<and> b \<le> a + 1000) (t # ts)"
    and "iteration app \<le> seconds_of t" and "seconds_of t \<le> iteration app + 1"
    and "\<forall>x \<in> set (t # ts). x < 2 ^ 24"
  shows "time_lines (snd (iterate_run app (t # ts))) =
           [iteration app + 1..seconds_of (last (t # ts))] \<and>
         iteration (fst (iterate_run app (t # ts))) = seconds_of (last (t # ts)) \<and>
         seconds_of t \<le> seconds_of (last (t # ts))"
  using assms
proof (induction ts arbitrary: app t)
  case Nil
  then show ?case
    by (simp add: iterate_run_Cons_fst iterate_run_Cons_snd iterate_catches_up
          del: iterate_run.simps(2))
next
  case (Cons u us)
  from Cons.prems(1) have tu: "t \<le> u" "u \<le> t + 1000"
    and rest: "successively (\<lambda>a b. a \<le> b \<and> b \<le> a + 1000) (u # us)"
    by simp_all
  from Cons.prems(4) have bt: "t < 2 ^ 24" and bu: "u < 2 ^ 24"
    and brest: "\<forall>x \<in> set (u # us). x < 2 ^ 24"
    by simp_all
  have now: "iteration (iterate_state app t) = seconds_of t"
    and line: "time_lines (iterate_trace app t) = [iteration app + 1..seconds_of t]"
    using Cons.prems(2,3) by (rule iterate_catches_up)+
  have lo: "iteration (iterate_state app t) \<le> seconds_of u"
    using now seconds_of_mono [OF tu(1) bu] by simp
  have hi: "seconds_of u \<le> iteration (iterate_state app t) + 1"
    using now seconds_of_gap [OF tu(2) bt bu] by simp
  from Cons.IH [OF rest lo hi brest]
  have ih1: "time_lines (snd (iterate_run (iterate_state app t) (u # us))) =
               [seconds_of t + 1..seconds_of (last (u # us))]"
    and ih2: "iteration (fst (iterate_run (iterate_state app t) (u # us))) =
               seconds_of (last (u # us))"
    and ih3: "seconds_of u \<le> seconds_of (last (u # us))"
    by (simp_all add: now)
  have le: "seconds_of t \<le> seconds_of (last (u # us))"
    using seconds_of_mono [OF tu(1) bu] ih3 by (rule order_trans)
  have "time_lines (snd (iterate_run app (t # u # us))) =
          [iteration app + 1..seconds_of t] @ [seconds_of t + 1..seconds_of (last (u # us))]"
    by (simp only: iterate_run_Cons_snd [of app t] time_lines_append line ih1)
  also have "\<dots> = [iteration app + 1..seconds_of (last (u # us))]"
    using Cons.prems(2) le by (intro upto_join) simp_all
  finally have l: "time_lines (snd (iterate_run app (t # u # us))) =
                     [iteration app + 1..seconds_of (last (t # u # us))]"
    by simp
  have f: "iteration (fst (iterate_run app (t # u # us))) = seconds_of (last (t # u # us))"
    using ih2 by (simp add: iterate_run_Cons_fst [of app t] del: iterate_run.simps)
  from l f le show ?case by simp
qed

lemma successively_upt: "successively (\<lambda>a b. a \<le> b \<and> b \<le> a + 1000) [m..<n]"
proof (induction n)
  case 0
  show ?case by simp
next
  case (Suc n)
  show ?case
  proof (cases "m < n")
    case True
    then have "[m..<n] \<noteq> []" and "last [m..<n] = n - 1" by simp_all
    with Suc True show ?thesis
      by (simp add: successively_append_iff)
  next
    case False
    then show ?thesis by (cases "m = n") simp_all
  qed
qed

lemma every_tick_facts:
  assumes "0 < n"
  shows "every_tick n \<noteq> []"
    and "hd (every_tick n) = 0"
    and "last (every_tick n) = n - 1"
    and "successively (\<lambda>a b. a \<le> b \<and> b \<le> a + 1000) (every_tick n)"
    and "sorted (every_tick n)"
    and "\<forall>t \<in> set (every_tick n). t < n"
  using assms by (simp_all add: every_tick_def successively_upt)

lemma iterate_every_tick:
  assumes "iteration app = 0" and "0 < n" and "n \<le> 2 ^ 24"
  shows "time_lines (snd (iterate_run app (every_tick n))) = [1..seconds_of (n - 1)]"
proof -
  obtain t us where "every_tick n = t # us"
    using every_tick_facts(1) [OF assms(2)] by (cases "every_tick n") simp_all
  with every_tick_facts(2) [OF assms(2)] have list: "every_tick n = 0 # us"
    by simp
  have s: "successively (\<lambda>a b. a \<le> b \<and> b \<le> a + 1000) (0 # us)"
    using every_tick_facts(4) [OF assms(2)] by (simp only: list)
  have b: "\<forall>x \<in> set (0 # us). x < 2 ^ 24"
    using every_tick_facts(6) [OF assms(2)] assms(3) by (fastforce simp only: list)
  have z: "seconds_of 0 = 0" by (simp add: seconds_of_div)
  have "time_lines (snd (iterate_run app (0 # us))) =
          [iteration app + 1..seconds_of (last (0 # us))]"
    using iterate_run_lines [OF s _ _ b, of app] assms(1) z by simp
  moreover have "last (0 # us) = n - 1"
    using every_tick_facts(3) [OF assms(2)] by (simp only: list)
  ultimately show ?thesis
    by (simp only: list assms(1)) simp
qed

lemma iterate_every_tick_3200ms:
  "time_lines (snd (iterate_run app0 (every_tick 500))) = [] \<and>
   time_lines (snd (iterate_run app0 (every_tick 501))) = [1] \<and>
   time_lines (snd (iterate_run app0 (every_tick 1500))) = [1] \<and>
   time_lines (snd (iterate_run app0 (every_tick 1501))) = [1, 2] \<and>
   time_lines (snd (iterate_run app0 (every_tick 2500))) = [1, 2] \<and>
   time_lines (snd (iterate_run app0 (every_tick 2501))) = [1, 2, 3] \<and>
   time_lines (snd (iterate_run app0 (every_tick 3201))) = [1, 2, 3]"
proof -
  have "iteration app0 = 0" by (simp add: app0_def)
  then show ?thesis
    by (simp add: iterate_every_tick seconds_of_div upto_rec1)
qed

section \<open>The claims\<close>

text \<open>
  C1. Init is not all-or-nothing at every step. At a start-up in which every call
  succeeds except that the image file cannot be decoded (\<^verbatim>\<open>IMG_Load\<close> returns null
  and the upload from the null surface returns null), the result is \<open>continue\<close>, not
  a failure, and the object is handed to the caller with a null image texture. The four
  calls after the font is opened (text rasterization, its upload, image decode, its
  upload) are the ones whose result is never tested; a failure of any of the six calls
  before them does give a failure result with the slot untouched
  (\<open>SDL_AppInit_failure\<close>).
\<close>

theorem init_with_missing_image:
  "ret_IMG_Load env_no_image = None \<and>
   SDL_AppInit None env_no_image =
     (SDL_APP_CONTINUE,
      Some (app0\<lparr>imageTex := None\<rparr>),
      [CloseFont (Some 80), DestroySurface (Some 96), DestroySurface None,
       ShowWindow (Some 16),
       Log ''Window size: %ix%i'' [600, 600],
       Log ''Backbuffer size: %ix%i'' [600, 600],
       SetRenderVSync (Some 32) (- 1),
       Log ''Application started successfully!'' []])"
  by (simp add: SDL_AppInit_def env_no_image_def env_ok_def app0_def Let_def
      float_of_int_def float_of_nat_def
      SDL_PROP_TEXTURE_WIDTH_NUMBER_def SDL_PROP_TEXTURE_HEIGHT_NUMBER_def)

text \<open>
  C2. For an object that owns a window, a renderer and two textures, Quit makes the calls
  destroy renderer, destroy window, free the object, shut down the text subsystem, log,
  shut down the library, in this order. In the library, with the textures alive on the
  renderer as start-up created them, that releases the text texture, the image texture,
  the renderer and the window, each exactly once, the textures with their renderer, the
  renderer before the window, all four before the two shutdowns, and leaves nothing of
  the object's alive. With no object nothing is released and the two shutdowns still
  happen.
\<close>

theorem quit_releases_each_handle_once:
  assumes "window app = Some w" and "renderer app = Some r"
    and "messageTex app = Some m" and "imageTex app = Some i" and "m \<noteq> i"
  shows "SDL_AppQuit (Some app) result =
           [DestroyRenderer (Some r), DestroyWindow (Some w), DeleteAppContext app,
            TTF_Quit, Log ''Application quit successfully!'' [], SDL_Quit] \<and>
         teardown (library_of app) (SDL_AppQuit (Some app) result) =
           ([Released (Texture m), Released (Texture i), Released (Renderer r),
             Released (Window w), TextSubsystemDown, LibraryDown],
            \<lparr>windows = [], renderers = [], textures = []\<rparr>) \<and>
         count_list (fst (teardown (library_of app) (SDL_AppQuit (Some app) result)))
           (Released (Texture m)) = 1 \<and>
         count_list (fst (teardown (library_of app) (SDL_AppQuit (Some app) result)))
           (Released (Texture i)) = 1 \<and>
         count_list (fst (teardown (library_of app) (SDL_AppQuit (Some app) result)))
           (Released (Renderer r)) = 1 \<and>
         count_list (fst (teardown (library_of app) (SDL_AppQuit (Some app) result)))
           (Released (Window w)) = 1 \<and>
         SDL_AppQuit None result =
           [TTF_Quit, Log ''Application quit successfully!'' [], SDL_Quit] \<and>
         teardown L (SDL_AppQuit None result) = ([TextSubsystemDown, LibraryDown], L)"
proof -
  have calls: "SDL_AppQuit (Some app) result =
      [DestroyRenderer (Some r), DestroyWindow (Some w), DeleteAppContext app,
       TTF_Quit, Log ''Application quit successfully!'' [], SDL_Quit]"
    by (simp add: SDL_AppQuit_def assms(1,2))
  have lib: "library_of app = \<lparr>windows = [w], renderers = [r], textures = [(m, r), (i, r)]\<rparr>"
    by (simp add: library_of_def assms(1-4))
  have run: "teardown (library_of app) (SDL_AppQuit (Some app) result) =
      ([Released (Texture m), Released (Texture i), Released (Renderer r),
        Released (Window w), TextSubsystemDown, LibraryDown],
       \<lparr>windows = [], renderers = [], textures = []\<rparr>)"
    by (simp add: calls lib)
  have none: "SDL_AppQuit None result =
      [TTF_Quit, Log ''Application quit successfully!'' [], SDL_Quit]"
    by (simp add: SDL_AppQuit_def)
  have idle: "teardown L (SDL_AppQuit None result) = ([TextSubsystemDown, LibraryDown], L)"
    by (simp add: none)
  from assms(5) calls run none idle show ?thesis by simp
qed

theorem quit_releases_each_handle_once_witness:
  "window app0 = Some 16 \<and> renderer app0 = Some 32 \<and>
   messageTex app0 = Some 48 \<and> imageTex app0 = Some 64 \<and>
   library_of app0 = \<lparr>windows = [16], renderers = [32], textures = [(48, 32), (64, 32)]\<rparr> \<and>
   teardown (library_of app0) (SDL_AppQuit (Some app0) SDL_APP_SUCCESS) =
     ([Released (Texture 48), Released (Texture 64), Released (Renderer 32),
       Released (Window 16), TextSubsystemDown, LibraryDown],
      \<lparr>windows = [], renderers = [], textures = []\<rparr>) \<and>
   teardown (library_of app0) (SDL_AppQuit None SDL_APP_FAILURE) =
     ([TextSubsystemDown, LibraryDown], library_of app0)"
proof -
  have h: "window app0 = Some 16" "renderer app0 = Some 32"
    "messageTex app0 = Some 48" "imageTex app0 = Some 64" "(48::nat) \<noteq> 64"
    by (simp_all add: app0_def)
  have l: "library_of app0 =
      \<lparr>windows = [16], renderers = [32], textures = [(48, 32), (64, 32)]\<rparr>"
    by (simp add: library_of_def app0_def)
  from quit_releases_each_handle_once [OF h, of SDL_APP_SUCCESS "library_of app0"]
    quit_releases_each_handle_once [OF h, of SDL_APP_FAILURE "library_of app0"] h l
  show ?thesis by simp
qed

lemma teardown_records_second_release:
  "fst (teardown (library_of app0)
          (SDL_AppQuit (Some app0) SDL_APP_SUCCESS @ [DestroyTexture (Some 48)])) =
     [Released (Texture 48), Released (Texture 64), Released (Renderer 32),
      Released (Window 16), TextSubsystemDown, LibraryDown, Released (Texture 48)]"
  by (simp add: library_of_def app0_def SDL_AppQuit_def)

text \<open>
  C3, as amended. Take a run of Iterate calls that starts from the counter 0 stored by
  start-up, whose first call comes before 1.5 seconds have elapsed, and whose tick
  counts never decrease and never advance by more than one second from one call to the
  next, all of them below \<open>2 ^ 24\<close> milliseconds (some 4.6 hours). Then the
  \<^verbatim>\<open>time:\<close> lines written are exactly one line for each whole number from 1 up to
  the elapsed time of the last call rounded to the nearest second, in increasing order,
  and the counter ends at that number. So no number is written twice and none is
  skipped. The line for a number is written by the first call whose elapsed time rounds
  to it, that is from half a second before the whole second on. With a call at every
  millisecond tick for 3.2 seconds that is three lines: 1, 2 and 3.
\<close>

theorem time_line_once_per_second:
  assumes "iteration app = 0"
    and "ts \<noteq> []"
    and "hd ts < 1500"
    and "successively (\<lambda>a b. a \<le> b \<and> b \<le> a + 1000) ts"
    and "\<forall>t \<in> set ts. t < 2 ^ 24"
  shows "time_lines (snd (iterate_run app ts)) = [1..seconds_of (last ts)] \<and>
         iteration (fst (iterate_run app ts)) = seconds_of (last ts)"
proof -
  from assms(2) obtain t us where ts: "ts = t # us"
    by (cases ts) simp_all
  from assms(3) have t: "t < 1500" by (simp add: ts)
  then have "t + 500 < 2000" by simp
  then have "(t + 500) div 1000 \<le> 1"
    by (simp add: div_le_mono less_Suc_eq_le div_less_iff_less_mult)
  moreover from t have "t < 2 ^ 24" by simp
  ultimately have hi: "seconds_of t \<le> iteration app + 1"
    and lo: "iteration app \<le> seconds_of t"
    by (simp_all add: seconds_of_div assms(1))
  from assms(4) have s: "successively (\<lambda>a b. a \<le> b \<and> b \<le> a + 1000) (t # us)"
    by (simp only: ts)
  from assms(5) have b: "\<forall>x \<in> set (t # us). x < 2 ^ 24"
    by (simp only: ts)
  from iterate_run_lines [OF s lo hi b] show ?thesis
    by (simp only: ts assms(1)) simp
qed

theorem time_line_once_per_second_witness:
  "iteration app0 = 0 \<and> hd (every_tick 3201) = 0 \<and> last (every_tick 3201) = 3200 \<and>
   sorted (every_tick 3201) \<and>
   time_lines (snd (iterate_run app0 (every_tick 3201))) = [1, 2, 3] \<and>
   iteration (fst (iterate_run app0 (every_tick 3201))) = 3"
proof -
  have n: "0 < (3201 :: nat)" by simp
  have a: "iteration app0 = 0" by (simp add: app0_def)
  have b: "every_tick 3201 \<noteq> []" by (rule every_tick_facts(1) [OF n])
  have h: "hd (every_tick 3201) = 0" by (rule every_tick_facts(2) [OF n])
  then have c: "hd (every_tick 3201) < 1500" by simp
  have d: "successively (\<lambda>a b. a \<le> b \<and> b \<le> a + 1000) (every_tick 3201)"
    by (rule every_tick_facts(4) [OF n])
  have e: "\<forall>t \<in> set (every_tick 3201). t < 2 ^ 24"
    using every_tick_facts(6) [OF n] by fastforce
  have l: "last (every_tick 3201) = 3200"
    using every_tick_facts(3) [OF n] by simp
  have s: "sorted (every_tick 3201)" by (rule every_tick_facts(5) [OF n])
  have r: "[1..seconds_of 3200] = [1, 2, 3]"
    by (simp add: seconds_of_div upto_rec1)
  have r': "seconds_of 3200 = 3"
    by (simp add: seconds_of_div)
  from time_line_once_per_second [OF a b c d e] a h l s r r' show ?thesis
    by simp
qed

text \<open>
  C3, as stated, fails. Ticks that never decrease are not enough: after start-up, with a
  first frame at 2.000 s and the next at 2.016 s, the line for second 2 is written twice
  and no line is written for second 1. (The counter goes up by one per line, whatever
  the rounded time is.)
\<close>

theorem time_line_counterexample:
  "sorted [2000, 2016 :: nat] \<and> iteration app0 = 0 \<and>
   time_lines (snd (iterate_run app0 [2000, 2016])) = [2, 2] \<and>
   \<not> distinct (time_lines (snd (iterate_run app0 [2000, 2016])))"
  by (simp add: app0_def SDL_AppIterate_def seconds_of_div)

text \<open>
  C4. An event that is neither a quit signal nor a key-down of Escape leaves the whole
  object as it was, and so does any sequence of such events: the pending result stays
  what it was (\<open>continue\<close> if it was \<open>continue\<close>). Every call returns, with the
  result \<open>continue\<close>.
\<close>

theorem other_events_ignored:
  assumes "\<forall>e \<in> set es. \<not> is_quit_request e"
  shows "event_run app es = (replicate (length es) SDL_APP_CONTINUE, app)"
  using assms
proof (induction es arbitrary: app)
  case Nil
  then show ?case by simp
next
  case (Cons e es)
  then have e: "\<not> is_quit_request e" and es: "\<forall>x \<in> set es. \<not> is_quit_request x"
    by simp_all
  have step: "SDL_AppEvent app e = (SDL_APP_CONTINUE, app)"
    using SDL_AppEvent_result [of app e] SDL_AppEvent_ignored [OF e, of app]
    by (simp add: prod_eq_iff)
  show ?case
    by (simp add: step Cons.IH [OF es])
qed

theorem other_events_ignored_witness:
  "\<not> is_quit_request ev_a_down \<and> \<not> is_quit_request ev_escape_up \<and>
   \<not> is_quit_request ev_mouse_motion \<and>
   event_run app0 [ev_a_down, ev_escape_up, ev_mouse_motion] =
     ([SDL_APP_CONTINUE, SDL_APP_CONTINUE, SDL_APP_CONTINUE], app0) \<and>
   app_quit app0 = SDL_APP_CONTINUE"
proof -
  have h: "\<forall>e \<in> set [ev_a_down, ev_escape_up, ev_mouse_motion]. \<not> is_quit_request e"
    by (simp add: is_quit_request_def ev_a_down_def ev_escape_up_def ev_mouse_motion_def)
  show ?thesis
    using h other_events_ignored [OF h, of app0] by (simp add: app0_def)
qed

text \<open>
  C5. Once an event that is a quit signal or a key-down of Escape has been handled, the
  pending result is \<open>success\<close>; it is still \<open>success\<close> after any further sequence
  of events, and a second such event leaves the object exactly as the first one left it.
\<close>

theorem quit_request_is_permanent:
  assumes "is_quit_request e"
  shows "app_quit (snd (SDL_AppEvent app e)) = SDL_APP_SUCCESS \<and>
         app_quit (snd (event_run (snd (SDL_AppEvent app e)) es)) = SDL_APP_SUCCESS \<and>
         (is_quit_request e' \<longrightarrow>
            snd (SDL_AppEvent (snd (SDL_AppEvent app e)) e') = snd (SDL_AppEvent app e))"
proof -
  have first: "app_quit (snd (SDL_AppEvent app e)) = SDL_APP_SUCCESS"
    by (simp add: SDL_AppEvent_quit [OF assms])
  have later: "app_quit (snd (event_run (snd (SDL_AppEvent app e)) es)) = SDL_APP_SUCCESS"
    using first by (rule event_run_keeps_success)
  have again: "snd (SDL_AppEvent (snd (SDL_AppEvent app e)) e') = snd (SDL_AppEvent app e)"
    if "is_quit_request e'"
    by (simp add: SDL_AppEvent_quit [OF assms] SDL_AppEvent_quit [OF that])
  from first later again show ?thesis by blast
qed

theorem quit_request_is_permanent_witness:
  "is_quit_request ev_escape_down \<and> is_quit_request ev_quit \<and>
   app_quit app0 = SDL_APP_CONTINUE \<and>
   app_quit (snd (SDL_AppEvent app0 ev_escape_down)) = SDL_APP_SUCCESS \<and>
   app_quit (snd (event_run (snd (SDL_AppEvent app0 ev_escape_down))
                    [ev_a_down, ev_quit, ev_escape_up, ev_escape_down])) = SDL_APP_SUCCESS \<and>
   snd (SDL_AppEvent (snd (SDL_AppEvent app0 ev_escape_down)) ev_quit) =
     snd (SDL_AppEvent app0 ev_escape_down)"
proof -
  have h: "is_quit_request ev_escape_down"
    by (simp add: is_quit_request_def ev_escape_down_def)
  have h': "is_quit_request ev_quit"
    by (simp add: is_quit_request_def ev_quit_def)
  show ?thesis
    using h h'
      quit_request_is_permanent [OF h, of app0
        "[ev_a_down, ev_quit, ev_escape_up, ev_escape_down]" ev_quit]
    by (simp add: app0_def)
qed

text \<open>
  C6. When start-up succeeds, the object it hands over has the destination rectangle at
  the origin, with the width and height that the two property queries on the text
  texture returned, converted to \<^verbatim>\<open>float\<close>; for a width or height of magnitude up to
  \<open>2 ^ 24\<close> pixels the conversion is exact, so the field is the queried number itself.
  The rectangle is the same after any sequence of Event and Iterate calls, and it is
  still the same in the object that Quit then frees.
\<close>

theorem messageDest_fixed_at_init:
  assumes "fst (SDL_AppInit slot env) = SDL_APP_CONTINUE"
  shows "\<exists>app. fst (snd (SDL_AppInit slot env)) = Some app \<and>
           messageDest app =
             \<lparr>rect_x = 0, rect_y = 0,
              rect_w = float_of_int (queried_width env (messageTex app)),
              rect_h = float_of_int (queried_height env (messageTex app))\<rparr> \<and>
           (\<bar>queried_width env (messageTex app)\<bar> \<le> 2 ^ 24 \<longrightarrow>
              rect_w (messageDest app) = queried_width env (messageTex app)) \<and>
           (\<bar>queried_height env (messageTex app)\<bar> \<le> 2 ^ 24 \<longrightarrow>
              rect_h (messageDest app) = queried_height env (messageTex app)) \<and>
           (\<forall>cs. messageDest (callback_run app cs) = messageDest app) \<and>
           (\<forall>cs result.
              map messageDest
                (freed_objects (SDL_AppQuit (Some (callback_run app cs)) result)) =
              [messageDest app])"
proof -
  from assms have "ret_SDL_Init env" "ret_TTF_Init env" "ret_CreateWindow env \<noteq> None"
    "ret_CreateRenderer env \<noteq> None" "ret_GetBasePath env \<noteq> None" "ret_OpenFont env \<noteq> None"
    by (simp_all add: SDL_AppInit_continue_iff)
  from SDL_AppInit_success [OF this, of slot] show ?thesis
    by (simp add: callback_run_messageDest float_of_int_exact SDL_AppQuit_def)
qed

theorem messageDest_fixed_at_init_witness:
  "fst (SDL_AppInit None env_ok) = SDL_APP_CONTINUE \<and>
   fst (snd (SDL_AppInit None env_ok)) = Some app0 \<and>
   queried_width env_ok (messageTex app0) = 160 \<and>
   queried_height env_ok (messageTex app0) = 28 \<and>
   queried_width env_ok None = 0 \<and>
   messageDest app0 = \<lparr>rect_x = 0, rect_y = 0, rect_w = 160, rect_h = 28\<rparr> \<and>
   messageDest (callback_run app0 [Iterate 16, Event ev_a_down, Iterate 1600, Event ev_quit,
                                   Iterate 1616]) =
     \<lparr>rect_x = 0, rect_y = 0, rect_w = 160, rect_h = 28\<rparr> \<and>
   map messageDest
     (freed_objects
        (SDL_AppQuit
           (Some (callback_run app0 [Iterate 16, Event ev_a_down, Iterate 1600, Event ev_quit,
                                     Iterate 1616]))
           SDL_APP_SUCCESS)) =
     [\<lparr>rect_x = 0, rect_y = 0, rect_w = 160, rect_h = 28\<rparr>]"
proof -
  have a: "fst (SDL_AppInit None env_ok) = SDL_APP_CONTINUE"
    and b: "fst (snd (SDL_AppInit None env_ok)) = Some app0"
    by (simp_all add: SDL_AppInit_env_ok)
  have q: "queried_width env_ok (messageTex app0) = 160"
    "queried_height env_ok (messageTex app0) = 28"
    "queried_width env_ok None = 0"
    by (simp_all add: queried_width_def queried_height_def env_ok_def app0_def
        SDL_PROP_TEXTURE_WIDTH_NUMBER_def SDL_PROP_TEXTURE_HEIGHT_NUMBER_def)
  have d0: "messageDest app0 = \<lparr>rect_x = 0, rect_y = 0, rect_w = 160, rect_h = 28\<rparr>"
    by (simp add: app0_def)
  from messageDest_fixed_at_init [OF a] obtain app
    where "fst (snd (SDL_AppInit None env_ok)) = Some app"
      and r: "\<forall>cs. messageDest (callback_run app cs) = messageDest app"
      and z: "\<forall>cs result.
                map messageDest
                  (freed_objects (SDL_AppQuit (Some (callback_run app cs)) result)) =
                [messageDest app]"
    by blast
  with b have app: "app = app0" by simp
  from r have r': "messageDest (callback_run app0 [Iterate 16, Event ev_a_down, Iterate 1600,
                 Event ev_quit, Iterate 1616]) = messageDest app0"
    unfolding app by (rule spec)
  from z have z': "map messageDest
       (freed_objects
          (SDL_AppQuit
             (Some (callback_run app0 [Iterate 16, Event ev_a_down, Iterate 1600, Event ev_quit,
                                       Iterate 1616]))
             SDL_APP_SUCCESS)) = [messageDest app0]"
    unfolding app by blast
  from a b q d0 r' z' show ?thesis by (simp only:)
qed



text \<open>
  C8. A call of Iterate returns the pending result stored in the object, and leaves it
  stored. After a successful start-up that is \<open>continue\<close>, and it is still
  \<open>continue\<close> after any frames and any events that are neither a quit signal nor a
  key-down of Escape.
\<close>

theorem iterate_returns_pending_result:
  "iterate_result app t = app_quit app \<and>
   app_quit (iterate_state app t) = app_quit app \<and>
   (fst (SDL_AppInit slot env) = SDL_APP_CONTINUE \<longrightarrow>
    fst (snd (SDL_AppInit slot env)) = Some app' \<longrightarrow>
    (\<forall>c \<in> set cs. no_quit_request c) \<longrightarrow>
      iterate_result (callback_run app' cs) t' = SDL_APP_CONTINUE)"
proof -
  have "iterate_result (callback_run app' cs) t' = SDL_APP_CONTINUE"
    if ok: "fst (SDL_AppInit slot env) = SDL_APP_CONTINUE"
      and st: "fst (snd (SDL_AppInit slot env)) = Some app'"
      and cs: "\<forall>c \<in> set cs. no_quit_request c"
  proof -
    from ok have "ret_SDL_Init env" "ret_TTF_Init env" "ret_CreateWindow env \<noteq> None"
      "ret_CreateRenderer env \<noteq> None" "ret_GetBasePath env \<noteq> None" "ret_OpenFont env \<noteq> None"
      by (simp_all add: SDL_AppInit_continue_iff)
    from SDL_AppInit_success [OF this, of slot] st have "app_quit app' = SDL_APP_CONTINUE"
      by auto
    with callback_run_app_quit [OF cs, of app'] show ?thesis
      by (simp add: iterate_result_eq)
  qed
  then show ?thesis
    by (simp add: iterate_result_eq iterate_state_app_quit)
qed

theorem iterate_returns_pending_result_witness:
  "fst (SDL_AppInit None env_ok) = SDL_APP_CONTINUE \<and>
   fst (snd (SDL_AppInit None env_ok)) = Some app0 \<and>
   no_quit_request (Iterate 16) \<and> no_quit_request (Event ev_a_down) \<and>
   no_quit_request (Iterate 1600) \<and>
   iterate_result (callback_run app0 [Iterate 16, Event ev_a_down, Iterate 1600]) 1616 =
     SDL_APP_CONTINUE \<and>
   iterate_result (snd (SDL_AppEvent app0 ev_quit)) 1616 = SDL_APP_SUCCESS"
proof -
  have a: "fst (SDL_AppInit None env_ok) = SDL_APP_CONTINUE"
    and b: "fst (snd (SDL_AppInit None env_ok)) = Some app0"
    by (simp_all add: SDL_AppInit_env_ok)
  have n: "no_quit_request (Event ev_a_down)"
    by (simp add: is_quit_request_def ev_a_down_def)
  then have c: "\<forall>c \<in> set [Iterate 16, Event ev_a_down, Iterate 1600]. no_quit_request c"
    by simp
  have q: "app_quit (snd (SDL_AppEvent app0 ev_quit)) = SDL_APP_SUCCESS"
    by (simp add: SDL_AppEvent_def ev_quit_def)
  from iterate_returns_pending_result
         [of app0 16 None env_ok app0 "[Iterate 16, Event ev_a_down, Iterate 1600]" 1616]
       iterate_returns_pending_result
         [of "snd (SDL_AppEvent app0 ev_quit)" 1616 None env_ok app0 "[]" 0]
       a b c n q
  show ?thesis by simp
qed

text \<open>
  C9. Event returns \<open>continue\<close> for every event, a quit signal and a key-down of
  Escape included. For those two the request to stop is only stored in the object, and
  the next call of Iterate is what returns \<open>success\<close>.
\<close>

theorem event_always_returns_continue:
  "fst (SDL_AppEvent app e) = SDL_APP_CONTINUE \<and>
   (is_quit_request e \<longrightarrow>
      app_quit (snd (SDL_AppEvent app e)) = SDL_APP_SUCCESS \<and>
      iterate_result (snd (SDL_AppEvent app e)) t = SDL_APP_SUCCESS)"
  by (simp add: SDL_AppEvent_result SDL_AppEvent_quit iterate_result_eq)

theorem event_always_returns_continue_witness:
  "is_quit_request ev_quit \<and> is_quit_request ev_escape_down \<and>
   fst (SDL_AppEvent app0 ev_quit) = SDL_APP_CONTINUE \<and>
   iterate_result (snd (SDL_AppEvent app0 ev_quit)) 16 = SDL_APP_SUCCESS \<and>
   fst (SDL_AppEvent app0 ev_escape_down) = SDL_APP_CONTINUE \<and>
   iterate_result (snd (SDL_AppEvent app0 ev_escape_down)) 16 = SDL_APP_SUCCESS"
proof -
  have q: "is_quit_request ev_quit"
    by (simp add: is_quit_request_def ev_quit_def)
  have k: "is_quit_request ev_escape_down"
    by (simp add: is_quit_request_def ev_escape_down_def)
  from event_always_returns_continue [of app0 ev_quit 16]
       event_always_returns_continue [of app0 ev_escape_down 16] q k
  show ?thesis by simp
qed

text \<open>
  C10. A call of Iterate writes no field of the object other than the counter: the
  window, the renderer, both textures, the destination rectangle and the pending result
  are what they were. The counter stays or goes up by one, so over any run of calls it
  never decreases.
\<close>

theorem iterate_writes_counter_only:
  "window (iterate_state app t) = window app \<and>
   renderer (iterate_state app t) = renderer app \<and>
   messageTex (iterate_state app t) = messageTex app \<and>
   imageTex (iterate_state app t) = imageTex app \<and>
   messageDest (iterate_state app t) = messageDest app \<and>
   app_quit (iterate_state app t) = app_quit app \<and>
   iterate_state app t = app\<lparr>iteration := iteration (iterate_state app t)\<rparr> \<and>
   iteration app \<le> iteration (iterate_state app t) \<and>
   iteration (iterate_state app t) \<le> iteration app + 1 \<and>
   iteration (fst (iterate_run app ts)) \<le> iteration (fst (iterate_run app (ts @ us)))"
proof -
  have "fst (iterate_run app (ts @ us)) = fst (iterate_run (fst (iterate_run app ts)) us)"
    by (induction ts arbitrary: app) (simp_all add: iterate_run_Cons_fst del: iterate_run.simps(2))
  then have "iteration (fst (iterate_run app ts)) \<le> iteration (fst (iterate_run app (ts @ us)))"
    by (simp add: iterate_run_iteration_ge)
  then show ?thesis
    by (simp add: iterate_state_eq)
qed

end
